theory Spec2Isabelle
  imports Main
begin

section \<open>JavaScript values\<close>

text \<open>
  A property that may be missing is a \<open>string option\<close>: \<open>None\<close> is \<open>undefined\<close>.
  The only falsy values of that type are \<open>undefined\<close> and the empty string.
\<close>

definition truthy :: "string option \<Rightarrow> bool" where
  "truthy v = (case v of None \<Rightarrow> False | Some s \<Rightarrow> s \<noteq> [])"

text \<open>\<open>a || b\<close> where both operands may be \<open>undefined\<close>.\<close>

definition or_opt :: "string option \<Rightarrow> string option \<Rightarrow> string option" where
  "or_opt a b = (if truthy a then a else b)"

text \<open>\<open>a || b\<close> where the right operand is a string.\<close>

definition or_str :: "string option \<Rightarrow> string \<Rightarrow> string" where
  "or_str a b = (case a of None \<Rightarrow> b | Some s \<Rightarrow> if s = [] then b else s)"

text \<open>
  A value caught by \<open>catch (error)\<close>: an instance of \<open>Error\<close> with its message, or
  anything else.
\<close>

datatype thrown = Error_value string | Other_value

text \<open>\<open>error instanceof Error ? error.message : fallback\<close>\<close>

definition catch_message :: "thrown \<Rightarrow> string \<Rightarrow> string" where
  "catch_message e fallback = (case e of Error_value m \<Rightarrow> m | Other_value \<Rightarrow> fallback)"

section \<open>Data model of the admin list page\<close>

datatype toast_kind = Success | Error | Info

record toast =
  toast_id :: string
  message :: string
  toast_type :: toast_kind

text \<open>The interface \<open>User\<close>: \<open>id\<close> and \<open>_id\<close> are optional, the other fields strings.\<close>

record user =
  user_id :: "string option"
  user__id :: "string option"
  fullName :: string
  email :: string
  mobile :: string
  address :: string
  gender :: string
  createdAt :: "string option"
  updatedAt :: "string option"

text \<open>
  The interface \<open>UserDetails\<close> is filled from the detail endpoint, and the handlers read
  each property behind a cast and a \<open>||\<close> fallback: here every property may be missing.
\<close>

record user_details =
  d_id :: "string option"
  d__id :: "string option"
  d_fullName :: "string option"
  d_email :: "string option"
  d_mobile :: "string option"
  d_address :: "string option"
  d_gender :: "string option"

text \<open>
  The calls of \<open>fetch\<close>, one constructor for each endpoint of the page:
  \<open>GET admin/list\<close>; \<open>POST admin/edit-user\<close> with the body \<open>{id, ...userDetails}\<close>;
  \<open>POST admin/delete-user/${id}\<close>; \<open>POST admin/favourites\<close> with the body \<open>{id: userId}\<close>.
\<close>

datatype request =
    Get_list
  | Post_edit_user string user_details
  | Post_delete_user string
  | Post_favourites string

text \<open>
  What the awaited \<open>fetch\<close> gives back: it rejects, or it resolves to a response with
  its \<open>ok\<close> flag and the outcome of \<open>response.json()\<close>, which rejects (\<open>Inl\<close>) or
  yields the parsed body. Bodies are JSON objects: the list endpoint carries the array
  \<open>userData\<close>, the other endpoints an optional \<open>message\<close>.
\<close>

datatype 'b response = Rejected thrown | Response bool "thrown + 'b"

record json_users =
  userData :: "user list"

record json_message =
  body_message :: "string option"

text \<open>
  The state of \<open>AdminListPage\<close>: its eleven \<open>useState\<close> cells, and the environment the
  handlers act on: the clock in milliseconds, the pending \<open>setTimeout\<close> callbacks (due
  time and the toast id each one closes over) and the log of \<open>fetch\<close> calls.
\<close>

record page =
  users :: "user list"
  isLoading :: bool
  toasts :: "toast list"
  isModalOpen :: bool
  userDetails :: "user_details option"
  isLoadingDetails :: bool
  favoritedUsers :: "string set"
  isFavoriting :: "string option"
  isUpdatingUser :: bool
  isDeletingUser :: bool
  showDeleteConfirm :: bool
  now :: nat
  timers :: "(nat \<times> string) list"
  requests :: "request list"

definition initial :: page where
  "initial = \<lparr>users = [], isLoading = True, toasts = [], isModalOpen = False,
     userDetails = None, isLoadingDetails = False, favoritedUsers = {},
     isFavoriting = None, isUpdatingUser = False, isDeletingUser = False,
     showDeleteConfirm = False, now = 0, timers = [], requests = []\<rparr>"

section \<open>The notification queue\<close>

text \<open>
  \<open>showToast\<close>: \<open>rid\<close> is the value of \<open>Math.random().toString(36).substring(7)\<close> drawn
  by this call. The entry is appended and a timer is armed 4000 ms ahead.
\<close>

definition showToast :: "string \<Rightarrow> string \<Rightarrow> toast_kind \<Rightarrow> page \<Rightarrow> page" where
  "showToast rid msg ty s =
     s\<lparr>toasts := toasts s @ [\<lparr>toast_id = rid, message = msg, toast_type = ty\<rparr>],
       timers := timers s @ [(now s + 4000, rid)]\<rparr>"

definition removeToast :: "string \<Rightarrow> page \<Rightarrow> page" where
  "removeToast i s = s\<lparr>toasts := filter (\<lambda>t. toast_id t \<noteq> i) (toasts s)\<rparr>"

text \<open>The callback handed to \<open>setTimeout\<close> by \<open>showToast\<close>.\<close>

definition timeout_callback :: "string \<Rightarrow> page \<Rightarrow> page" where
  "timeout_callback i s = s\<lparr>toasts := filter (\<lambda>t. toast_id t \<noteq> i) (toasts s)\<rparr>"

text \<open>
  The browser's timer queue: when \<open>d\<close> milliseconds pass, every callback that is due by
  then runs, in the order it was armed, and leaves the queue.
\<close>

definition elapse :: "nat \<Rightarrow> page \<Rightarrow> page" where
  "elapse d s =
     (let t = now s + d;
          due = filter (\<lambda>(at, i). at \<le> t) (timers s);
          s' = fold (\<lambda>(at, i). timeout_callback i) due s
      in s'\<lparr>now := t, timers := filter (\<lambda>(at, i). \<not> at \<le> t) (timers s)\<rparr>)"

section \<open>The handlers\<close>

text \<open>
  An async handler runs up to its \<open>await fetch(...)\<close>, and resumes when the response
  arrives. The first part returns the state and, when a request was sent, the values the
  continuation closes over; the second part takes them, the response and the state of
  that moment. State setters run in the order of the source.
\<close>

definition fetch_call :: "request \<Rightarrow> page \<Rightarrow> page" where
  "fetch_call req s = s\<lparr>requests := requests s @ [req]\<rparr>"

subsection \<open>fetchUsers\<close>

definition fetchUsers_start :: "page \<Rightarrow> page" where
  "fetchUsers_start s = fetch_call Get_list (s\<lparr>isLoading := True\<rparr>)"

definition fetchUsers_try :: "json_users response \<Rightarrow> page \<Rightarrow> thrown + page" where
  "fetchUsers_try r s =
     (case r of
        Rejected e \<Rightarrow> Inl e
      | Response ok j \<Rightarrow>
          if \<not> ok then Inl (Error_value ''Failed to fetch users'')
          else (case j of
                  Inl e \<Rightarrow> Inl e
                | Inr data \<Rightarrow> Inr (s\<lparr>users := userData data\<rparr>)))"

definition fetchUsers_resume :: "json_users response \<Rightarrow> string \<Rightarrow> page \<Rightarrow> page" where
  "fetchUsers_resume r rid s =
     (let s1 = (case fetchUsers_try r s of
                  Inl e \<Rightarrow>
                    showToast rid (catch_message e ''Failed to load users. Please try again.'')
                      Error s
                | Inr s' \<Rightarrow> s')
      in s1\<lparr>isLoading := False\<rparr>)"

subsection \<open>closeModal and handleFieldChange\<close>

definition closeModal :: "page \<Rightarrow> page" where
  "closeModal s = s\<lparr>isModalOpen := False, userDetails := None\<rparr>"

datatype field = F_fullName | F_email | F_mobile | F_gender | F_address

definition set_field :: "field \<Rightarrow> string \<Rightarrow> user_details \<Rightarrow> user_details" where
  "set_field f v d =
     (case f of
        F_fullName \<Rightarrow> d\<lparr>d_fullName := Some v\<rparr>
      | F_email \<Rightarrow> d\<lparr>d_email := Some v\<rparr>
      | F_mobile \<Rightarrow> d\<lparr>d_mobile := Some v\<rparr>
      | F_gender \<Rightarrow> d\<lparr>d_gender := Some v\<rparr>
      | F_address \<Rightarrow> d\<lparr>d_address := Some v\<rparr>)"

definition handleFieldChange :: "field \<Rightarrow> string \<Rightarrow> page \<Rightarrow> page" where
  "handleFieldChange f v s =
     s\<lparr>userDetails := (case userDetails s of None \<Rightarrow> None | Some d \<Rightarrow> Some (set_field f v d))\<rparr>"

subsection \<open>handleUpdateUser\<close>

text \<open>\<open>(userDetails.id || userDetails._id || "")\<close>\<close>

definition details_id :: "user_details \<Rightarrow> string" where
  "details_id d = or_str (or_opt (d_id d) (d__id d)) []"

text \<open>\<open>(u.id || u._id) === id\<close>\<close>

definition has_id :: "string \<Rightarrow> user \<Rightarrow> bool" where
  "has_id i u = (or_opt (user_id u) (user__id u) = Some i)"

definition merge_details :: "user_details \<Rightarrow> user \<Rightarrow> user" where
  "merge_details d u =
     u\<lparr>fullName := or_str (d_fullName d) (fullName u),
       email := or_str (d_email d) (email u),
       mobile := or_str (d_mobile d) (mobile u),
       address := or_str (d_address d) (address u),
       gender := or_str (d_gender d) (gender u)\<rparr>"

text \<open>The Update button of the modal: \<open>disabled={isUpdatingUser || isDeletingUser}\<close>.\<close>

definition update_button_disabled :: "page \<Rightarrow> bool" where
  "update_button_disabled s = (isUpdatingUser s \<or> isDeletingUser s)"

definition handleUpdateUser_start :: "string \<Rightarrow> page \<Rightarrow> page \<times> (string \<times> user_details) option" where
  "handleUpdateUser_start rid s =
     (case userDetails s of
        None \<Rightarrow> (s, None)
      | Some d \<Rightarrow>
          if isUpdatingUser s then (s, None)
          else
            let i = details_id d in
            if i = [] then (showToast rid ''User id is missing, cannot update.'' Error s, None)
            else (fetch_call (Post_edit_user i d) (s\<lparr>isUpdatingUser := True\<rparr>), Some (i, d)))"

definition handleUpdateUser_try ::
  "string \<times> user_details \<Rightarrow> json_message response \<Rightarrow> string \<Rightarrow> page \<Rightarrow> thrown + page" where
  "handleUpdateUser_try k r rid s =
     (case r of
        Rejected e \<Rightarrow> Inl e
      | Response ok j \<Rightarrow>
          if \<not> ok then
            (let errorData = (case j of Inl e \<Rightarrow> \<lparr>body_message = None\<rparr> | Inr b \<Rightarrow> b)
             in Inl (Error_value (or_str (body_message errorData) ''Failed to update user'')))
          else
            (let data = (case j of Inl e \<Rightarrow> \<lparr>body_message = None\<rparr> | Inr b \<Rightarrow> b);
                 s1 = s\<lparr>users := map (\<lambda>u. if has_id (fst k) u then merge_details (snd k) u else u)
                                      (users s)\<rparr>
             in Inr (showToast rid
                       (or_str (body_message data) ''User details updated successfully!'')
                       Success s1)))"

definition handleUpdateUser_resume ::
  "string \<times> user_details \<Rightarrow> json_message response \<Rightarrow> string \<Rightarrow> page \<Rightarrow> page" where
  "handleUpdateUser_resume k r rid s =
     (let s1 = (case handleUpdateUser_try k r rid s of
                  Inl e \<Rightarrow>
                    showToast rid (catch_message e ''Failed to update user. Please try again.'')
                      Error s
                | Inr s' \<Rightarrow> s')
      in s1\<lparr>isUpdatingUser := False, isModalOpen := False, userDetails := None\<rparr>)"

subsection \<open>handleDeleteUser\<close>

definition handleDeleteUser_start :: "string \<Rightarrow> page \<Rightarrow> page \<times> string option" where
  "handleDeleteUser_start rid s =
     (case userDetails s of
        None \<Rightarrow> (s, None)
      | Some d \<Rightarrow>
          if isDeletingUser s then (s, None)
          else
            let i = details_id d in
            if i = [] then (showToast rid ''User id is missing, cannot delete.'' Error s, None)
            else (fetch_call (Post_delete_user i) (s\<lparr>isDeletingUser := True\<rparr>), Some i))"

definition handleDeleteUser_try ::
  "string \<Rightarrow> json_message response \<Rightarrow> string \<Rightarrow> page \<Rightarrow> thrown + page" where
  "handleDeleteUser_try i r rid s =
     (case r of
        Rejected e \<Rightarrow> Inl e
      | Response ok j \<Rightarrow>
          if \<not> ok then
            (let errorData = (case j of Inl e \<Rightarrow> \<lparr>body_message = None\<rparr> | Inr b \<Rightarrow> b)
             in Inl (Error_value (or_str (body_message errorData) ''Failed to delete user'')))
          else
            (let data = (case j of Inl e \<Rightarrow> \<lparr>body_message = None\<rparr> | Inr b \<Rightarrow> b);
                 s1 = s\<lparr>users := filter (\<lambda>u. \<not> has_id i u) (users s)\<rparr>;
                 s2 = s1\<lparr>favoritedUsers := favoritedUsers s1 - {i}\<rparr>;
                 s3 = showToast rid (or_str (body_message data) ''User deleted successfully!'')
                        Success s2
             in Inr (s3\<lparr>isModalOpen := False, userDetails := None,
                         showDeleteConfirm := False\<rparr>)))"

definition handleDeleteUser_resume ::
  "string \<Rightarrow> json_message response \<Rightarrow> string \<Rightarrow> page \<Rightarrow> page" where
  "handleDeleteUser_resume i r rid s =
     (let s1 = (case handleDeleteUser_try i r rid s of
                  Inl e \<Rightarrow>
                    showToast rid (catch_message e ''Failed to delete user. Please try again.'')
                      Error s
                | Inr s' \<Rightarrow> s')
      in s1\<lparr>isDeletingUser := False\<rparr>)"

subsection \<open>handleFavorite\<close>

text \<open>
  The guard \<open>if (isFavoriting) return\<close> tests the slot for truthiness. The continuation
  closes over \<open>userId\<close> and \<open>userName\<close>. On the success path \<open>response.json()\<close> is
  awaited without a \<open>catch\<close>, so its rejection reaches the handler's \<open>catch\<close> block.
\<close>

definition handleFavorite_start ::
  "string \<Rightarrow> string \<Rightarrow> page \<Rightarrow> page \<times> (string \<times> string) option" where
  "handleFavorite_start userId userName s =
     (if truthy (isFavoriting s) then (s, None)
      else (fetch_call (Post_favourites userId) (s\<lparr>isFavoriting := Some userId\<rparr>),
            Some (userId, userName)))"

definition handleFavorite_try ::
  "string \<times> string \<Rightarrow> json_message response \<Rightarrow> string \<Rightarrow> page \<Rightarrow> thrown + page" where
  "handleFavorite_try k r rid s =
     (case r of
        Rejected e \<Rightarrow> Inl e
      | Response ok j \<Rightarrow>
          if \<not> ok then
            (let errorData = (case j of Inl e \<Rightarrow> \<lparr>body_message = None\<rparr> | Inr b \<Rightarrow> b)
             in Inl (Error_value (or_str (body_message errorData) ''Failed to add to favorites'')))
          else
            (case j of
               Inl e \<Rightarrow> Inl e
             | Inr data \<Rightarrow>
                 (let s1 = s\<lparr>favoritedUsers :=
                               (if fst k \<in> favoritedUsers s then favoritedUsers s - {fst k}
                                else insert (fst k) (favoritedUsers s))\<rparr>
                  in Inr (showToast rid
                            (or_str (body_message data)
                               (snd k @ '' added to favorites successfully!''))
                            Success s1))))"

definition handleFavorite_resume ::
  "string \<times> string \<Rightarrow> json_message response \<Rightarrow> string \<Rightarrow> page \<Rightarrow> page" where
  "handleFavorite_resume k r rid s =
     (let s1 = (case handleFavorite_try k r rid s of
                  Inl e \<Rightarrow>
                    showToast rid
                      (catch_message e ''Failed to add to favorites. Please try again.'')
                      Error s
                | Inr s' \<Rightarrow> s')
      in s1\<lparr>isFavoriting := None\<rparr>)"

subsection \<open>A handler awaited to completion\<close>

text \<open>
  The whole async function, when nothing else happens between its request and the
  response \<open>r\<close>. \<open>rid\<close> is the identifier drawn if the call shows a notification.
\<close>

definition handleUpdateUser :: "json_message response \<Rightarrow> string \<Rightarrow> page \<Rightarrow> page" where
  "handleUpdateUser r rid s =
     (case handleUpdateUser_start rid s of
        (s1, None) \<Rightarrow> s1
      | (s1, Some k) \<Rightarrow> handleUpdateUser_resume k r rid s1)"

definition handleDeleteUser :: "json_message response \<Rightarrow> string \<Rightarrow> page \<Rightarrow> page" where
  "handleDeleteUser r rid s =
     (case handleDeleteUser_start rid s of
        (s1, None) \<Rightarrow> s1
      | (s1, Some i) \<Rightarrow> handleDeleteUser_resume i r rid s1)"

definition handleFavorite ::
  "string \<Rightarrow> string \<Rightarrow> json_message response \<Rightarrow> string \<Rightarrow> page \<Rightarrow> page" where
  "handleFavorite userId userName r rid s =
     (case handleFavorite_start userId userName s of
        (s1, None) \<Rightarrow> s1
      | (s1, Some k) \<Rightarrow> handleFavorite_resume k r rid s1)"

section \<open>Runs of the page\<close>

subsection \<open>Notifications over time\<close>

text \<open>
  A history of the notification queue: \<open>showToast\<close> with the identifier it drew,
  \<open>removeToast\<close>, and the passing of time.
\<close>

datatype event = Push string string toast_kind | Dismiss string | Elapse nat

fun apply_event :: "event \<Rightarrow> page \<Rightarrow> page" where
  "apply_event (Push rid msg ty) s = showToast rid msg ty s"
| "apply_event (Dismiss i) s = removeToast i s"
| "apply_event (Elapse d) s = elapse d s"

definition run :: "event list \<Rightarrow> page \<Rightarrow> page" where
  "run evs s = fold apply_event evs s"

text \<open>
  The terms of the specification, read off a history alone: the identifiers pushed, the
  time that passes, and the number of pushes that have been dismissed since (a later
  \<open>Dismiss\<close> of their identifier) or have reached the expiry duration of 4000 ms.
\<close>

fun push_ids :: "event list \<Rightarrow> string list" where
  "push_ids [] = []"
| "push_ids (Push rid msg ty # evs) = rid # push_ids evs"
| "push_ids (Dismiss i # evs) = push_ids evs"
| "push_ids (Elapse d # evs) = push_ids evs"

fun elapsed :: "event list \<Rightarrow> nat" where
  "elapsed [] = 0"
| "elapsed (Elapse d # evs) = d + elapsed evs"
| "elapsed (Push rid msg ty # evs) = elapsed evs"
| "elapsed (Dismiss i # evs) = elapsed evs"

definition still_active :: "string \<Rightarrow> event list \<Rightarrow> bool" where
  "still_active rid evs = (Dismiss rid \<notin> set evs \<and> elapsed evs < 4000)"

fun dismissed_or_expired :: "event list \<Rightarrow> nat" where
  "dismissed_or_expired [] = 0"
| "dismissed_or_expired (Push rid msg ty # evs) =
     (if still_active rid evs then 0 else 1) + dismissed_or_expired evs"
| "dismissed_or_expired (Dismiss i # evs) = dismissed_or_expired evs"
| "dismissed_or_expired (Elapse d # evs) = dismissed_or_expired evs"

subsection \<open>What the specification calls active\<close>

text \<open>
  The messages the specification counts as active after a history, in the order of their
  pushes: those neither dismissed since nor 4000 ms old.
\<close>

fun active_messages :: "event list \<Rightarrow> toast list" where
  "active_messages [] = []"
| "active_messages (Push rid msg ty # evs) =
     (if still_active rid evs then [\<lparr>toast_id = rid, message = msg, toast_type = ty\<rparr>] else [])
       @ active_messages evs"
| "active_messages (Dismiss i # evs) = active_messages evs"
| "active_messages (Elapse d # evs) = active_messages evs"

text \<open>
  Whether an entry with identifier \<open>i\<close> that is on screen in state \<open>s\<close> outlives the
  history \<open>evs\<close>: it is not dismissed, and no pending timer of its identifier comes due.
\<close>

definition keeps :: "page \<Rightarrow> event list \<Rightarrow> string \<Rightarrow> bool" where
  "keeps s evs i =
     (Dismiss i \<notin> set evs \<and> (\<forall>(at, j) \<in> set (timers s). j = i \<longrightarrow> now s + elapsed evs < at))"

subsection \<open>Favourite requests in flight\<close>

text \<open>
  The argument each row hands to \<open>handleFavorite\<close> and \<open>handleUserClick\<close>:
  \<open>user.id || user._id || ""\<close>; and the favourite button of a row:
  \<open>disabled={isFavoriting === (user.id || user._id || "")}\<close>.
\<close>

definition row_id :: "user \<Rightarrow> string" where
  "row_id u = or_str (or_opt (user_id u) (user__id u)) []"

definition favourite_button_disabled :: "page \<Rightarrow> user \<Rightarrow> bool" where
  "favourite_button_disabled s u = (isFavoriting s = Some (row_id u))"

text \<open>
  Clicks on favourite buttons and responses arriving, in any order. The second component
  holds the continuations of the \<open>handleFavorite\<close> calls that await their response;
  \<open>Settle n r rid\<close> delivers the response \<open>r\<close> to the \<open>n\<close>-th of them.
\<close>

datatype fav_event = Click string string | Settle nat "json_message response" string

fun fav_step :: "fav_event \<Rightarrow> page \<times> (string \<times> string) list \<Rightarrow> page \<times> (string \<times> string) list" where
  "fav_step (Click userId userName) (s, ks) =
     (case handleFavorite_start userId userName s of
        (s1, None) \<Rightarrow> (s1, ks)
      | (s1, Some k) \<Rightarrow> (s1, ks @ [k]))"
| "fav_step (Settle n r rid) (s, ks) =
     (if n < length ks
      then (handleFavorite_resume (ks ! n) r rid s, take n ks @ drop (Suc n) ks)
      else (s, ks))"

definition fav_run :: "fav_event list \<Rightarrow> page \<times> (string \<times> string) list \<Rightarrow> page \<times> (string \<times> string) list" where
  "fav_run evs c = fold fav_step evs c"

section \<open>The product list page\<close>

text \<open>
  The interfaces \<open>Product\<close> and \<open>ProductDetails\<close> of the product list page, and the
  updater that \<open>handleUpdateProduct\<close> hands to \<open>setProducts\<close> once the response is a
  success. It closes over the resolved \<open>id\<close>, \<open>productDetails\<close> and
  \<open>editPhotoPreview\<close> (a string, empty when there is no preview).
\<close>

record product =
  p_id :: "string option"
  p__id :: "string option"
  p_name :: string
  p_link :: string
  p_email :: string
  p_photo :: string
  p_description :: string
  p_createdAt :: "string option"
  p_updatedAt :: "string option"

record product_details =
  pd_id :: "string option"
  pd__id :: "string option"
  pd_name :: "string option"
  pd_link :: "string option"
  pd_email :: "string option"
  pd_photo :: "string option"
  pd_description :: "string option"

definition has_product_id :: "string \<Rightarrow> product \<Rightarrow> bool" where
  "has_product_id i p = (or_opt (p_id p) (p__id p) = Some i)"

definition merge_product :: "product_details \<Rightarrow> string \<Rightarrow> product \<Rightarrow> product" where
  "merge_product d editPhotoPreview p =
     p\<lparr>p_name := or_str (pd_name d) (p_name p),
       p_link := or_str (pd_link d) (p_link p),
       p_email := or_str (pd_email d) (p_email p),
       p_description := or_str (pd_description d) (p_description p),
       p_photo := (if editPhotoPreview \<noteq> [] then editPhotoPreview
                   else or_str (pd_photo d) (p_photo p))\<rparr>"

definition handleUpdateProduct_setProducts ::
  "string \<Rightarrow> product_details \<Rightarrow> string \<Rightarrow> product list \<Rightarrow> product list" where
  "handleUpdateProduct_setProducts i d editPhotoPreview prev =
     map (\<lambda>p. if has_product_id i p then merge_product d editPhotoPreview p else p) prev"

text \<open>
  The checks \<open>handleUpdateProduct\<close> makes before it sends anything. \<open>emailRegex.test\<close>
  accepts exactly the strings made of one or more characters other than white space and
  the at sign, an at sign, one or more such characters, a dot, and one or more such
  characters. A \<open>char\<close> stands for a code unit below 256; of those, the white space of
  the pattern is tab, line feed, vertical tab, form feed, carriage return, space and the
  no-break space U+00A0.
\<close>

definition js_space :: "char \<Rightarrow> bool" where
  "js_space c =
     (c \<in> set [CHR 0x09, CHR 0x0A, CHR 0x0B, CHR 0x0C, CHR 0x0D, CHR '' '', CHR 0xA0])"

definition emailRegex_test :: "string \<Rightarrow> bool" where
  "emailRegex_test s =
     (let local = takeWhile (\<lambda>c. c \<noteq> CHR ''@'') s;
          rest = dropWhile (\<lambda>c. c \<noteq> CHR ''@'') s
      in local \<noteq> [] \<and> rest \<noteq> [] \<and> CHR ''@'' \<notin> set (tl rest)
         \<and> (\<forall>c \<in> set s. \<not> js_space c)
         \<and> CHR ''.'' \<in> set (butlast (tl (tl rest))))"

text \<open>
  How the first part of \<open>handleUpdateProduct\<close> ends: the call is ignored, it is refused
  with an error notification of the given text, or the request is sent for the resolved
  identifier. \<open>url_parses\<close> says whether \<open>new URL(link)\<close> returns rather than throws.
\<close>

datatype preflight = Ignored | Refused string | Sent string

definition handleUpdateProduct_preflight ::
  "(string \<Rightarrow> bool) \<Rightarrow> bool \<Rightarrow> product_details option \<Rightarrow> preflight" where
  "handleUpdateProduct_preflight url_parses isUpdatingProduct productDetails =
     (case productDetails of
        None \<Rightarrow> Ignored
      | Some d \<Rightarrow>
          if isUpdatingProduct then Ignored
          else
            let i = or_str (or_opt (pd_id d) (pd__id d)) [] in
            if i = [] then Refused ''Product id is missing, cannot update.''
            else if \<not> truthy (pd_name d) \<or> \<not> truthy (pd_link d) \<or> \<not> truthy (pd_email d)
                    \<or> \<not> truthy (pd_description d)
              then Refused ''Please fill in all required fields.''
            else if \<not> emailRegex_test (the (pd_email d))
              then Refused ''Please enter a valid email address.''
            else if \<not> url_parses (the (pd_link d))
              then Refused ''Please enter a valid URL for the link field.''
            else Sent i)"

section \<open>Example data\<close>

definition ann :: user where
  "ann = \<lparr>user_id = Some ''1'', user__id = None, fullName = ''Ann Lee'',
     email = ''ann@example.com'', mobile = ''5550100'', address = ''1 Main St'',
     gender = ''female'', createdAt = None, updatedAt = None\<rparr>"

definition bob :: user where
  "bob = \<lparr>user_id = None, user__id = Some ''2'', fullName = ''Bob Ray'',
     email = ''bob@example.com'', mobile = ''5550101'', address = ''2 Side St'',
     gender = ''male'', createdAt = None, updatedAt = None\<rparr>"

text \<open>A second row that resolves to the identifier of \<open>ann\<close>, through \<open>_id\<close>.\<close>

definition ann_twin :: user where
  "ann_twin = \<lparr>user_id = None, user__id = Some ''1'', fullName = ''Ann L.'',
     email = ''ann@example.org'', mobile = ''5550100'', address = ''1 Main St'',
     gender = ''female'', createdAt = None, updatedAt = None\<rparr>"

definition ann_details :: user_details where
  "ann_details = \<lparr>d_id = Some ''1'', d__id = None, d_fullName = Some ''Ann Lee'',
     d_email = Some ''ann@example.com'', d_mobile = Some ''5550100'',
     d_address = Some ''1 Main St'', d_gender = Some ''female''\<rparr>"

text \<open>Details with a new name and nothing else: the email is missing, the mobile empty.\<close>

definition name_only :: user_details where
  "name_only = \<lparr>d_id = Some ''1'', d__id = None, d_fullName = Some ''Ann Smith'',
     d_email = None, d_mobile = Some [], d_address = None, d_gender = None\<rparr>"

definition no_id_details :: user_details where
  "no_id_details = \<lparr>d_id = None, d__id = Some [], d_fullName = Some ''Ann Lee'',
     d_email = Some ''ann@example.com'', d_mobile = None, d_address = None, d_gender = None\<rparr>"

definition bad_email_details :: user_details where
  "bad_email_details = \<lparr>d_id = Some ''1'', d__id = None, d_fullName = Some ''Ann Lee'',
     d_email = Some ''bad'', d_mobile = Some ''5550100'',
     d_address = Some ''1 Main St'', d_gender = Some ''female''\<rparr>"

text \<open>The page once the list \<open>us\<close> is loaded and the details \<open>d\<close> are open in the modal.\<close>

definition open_page :: "user list \<Rightarrow> user_details \<Rightarrow> page" where
  "open_page us d = initial\<lparr>users := us, isLoading := False, isModalOpen := True,
     userDetails := Some d\<rparr>"

definition lamp :: product where
  "lamp = \<lparr>p_id = Some ''7'', p__id = None, p_name = ''Lamp'', p_link = ''https://example.com/lamp'',
     p_email = ''shop@example.com'', p_photo = ''uploads/lamp.png'', p_description = ''A lamp'',
     p_createdAt = None, p_updatedAt = None\<rparr>"

definition lamp_renamed :: product_details where
  "lamp_renamed = \<lparr>pd_id = Some ''7'', pd__id = None, pd_name = Some ''Desk lamp'',
     pd_link = None, pd_email = Some [], pd_photo = None, pd_description = None\<rparr>"

definition lamp_bad_email :: product_details where
  "lamp_bad_email = \<lparr>pd_id = Some ''7'', pd__id = None, pd_name = Some ''Lamp'',
     pd_link = Some ''https://example.com/lamp'', pd_email = Some ''bad'',
     pd_photo = Some ''uploads/lamp.png'', pd_description = Some ''A lamp''\<rparr>"

definition ok_empty :: "json_message response" where
  "ok_empty = Response True (Inr \<lparr>body_message = None\<rparr>)"

text \<open>
  Two pushes for which \<open>Math.random().toString(36).substring(7)\<close> yields the same
  string, 3000 ms apart, and 1000 ms more.
\<close>

definition shared_id_history :: "event list" where
  "shared_id_history =
     [Push ''x7k2p9'' ''Saved'' Success, Elapse 3000, Push ''x7k2p9'' ''Deleted'' Success, Elapse 1000]"

definition sample_history :: "event list" where
  "sample_history = [Push ''x7k2p9'' ''Saved'' Success, Elapse 1000, Push ''m2p7qa'' ''Failed'' Error,
     Dismiss ''x7k2p9'', Elapse 3500, Push ''q8w1zt'' ''Hello'' Info, Dismiss ''x7k2p9'']"

text \<open>
  A row that carries both identifier fields, and the details of the same user as the
  detail endpoint serves them when it sends \<open>_id\<close> alone.
\<close>

definition ann_both :: user where
  "ann_both = \<lparr>user_id = Some ''1'', user__id = Some ''a1'', fullName = ''Ann Lee'',
     email = ''ann@example.com'', mobile = ''5550100'', address = ''1 Main St'',
     gender = ''female'', createdAt = None, updatedAt = None\<rparr>"

definition ann_by__id :: user_details where
  "ann_by__id = \<lparr>d_id = None, d__id = Some ''a1'', d_fullName = Some ''Ann Lee'',
     d_email = Some ''ann@example.com'', d_mobile = Some ''5550100'',
     d_address = Some ''1 Main St'', d_gender = Some ''female''\<rparr>"

text \<open>A row with neither \<open>id\<close> nor \<open>_id\<close>.\<close>

definition anon :: user where
  "anon = \<lparr>user_id = None, user__id = None, fullName = ''Cy Doe'',
     email = ''cy@example.com'', mobile = ''5550102'', address = ''3 Back St'',
     gender = ''other'', createdAt = None, updatedAt = None\<rparr>"

definition locked :: "json_message response" where
  "locked = Response False (Inr \<lparr>body_message = Some ''locked''\<rparr>)"

definition empty_message :: "json_message response" where
  "empty_message = Response False (Inr \<lparr>body_message = Some []\<rparr>)"

section \<open>Properties\<close>

subsection \<open>Frame lemmas\<close>

lemma showToast_fields [simp]:
  "toasts (showToast rid msg ty s) = toasts s @ [\<lparr>toast_id = rid, message = msg, toast_type = ty\<rparr>]"
  "timers (showToast rid msg ty s) = timers s @ [(now s + 4000, rid)]"
  "users (showToast rid msg ty s) = users s"
  "requests (showToast rid msg ty s) = requests s"
  "favoritedUsers (showToast rid msg ty s) = favoritedUsers s"
  "isFavoriting (showToast rid msg ty s) = isFavoriting s"
  "now (showToast rid msg ty s) = now s"
  by (simp_all add: showToast_def)

lemma removeToast_fields:
  "toasts (removeToast i s) = filter (\<lambda>t. toast_id t \<noteq> i) (toasts s)"
  "timers (removeToast i s) = timers s"
  "now (removeToast i s) = now s"
  by (simp_all add: removeToast_def)

subsection \<open>handleUpdateUser\<close>

text \<open>
  C1. A call of \<open>handleUpdateUser\<close> on loaded details whose \<open>id || _id\<close> resolves to
  the empty string sends no request, leaves the user list as it is and awaits nothing.
  Made through the Update button, which is enabled only while no update and no delete is
  running, it appends the error notification ``User id is missing, cannot update.''.
\<close>

theorem handleUpdateUser_missing_id:
  assumes "userDetails s = Some d" and "details_id d = []"
  shows "requests (fst (handleUpdateUser_start rid s)) = requests s
       \<and> users (fst (handleUpdateUser_start rid s)) = users s
       \<and> snd (handleUpdateUser_start rid s) = None
       \<and> (\<not> update_button_disabled s \<longrightarrow>
            toasts (fst (handleUpdateUser_start rid s)) =
              toasts s @ [\<lparr>toast_id = rid, message = ''User id is missing, cannot update.'',
                           toast_type = Error\<rparr>])"
  using assms by (simp add: handleUpdateUser_start_def update_button_disabled_def)

text \<open>The details \<open>{_id: "", fullName: "Ann Lee", ...}\<close>, opened on the list of Ann and Bob.\<close>

theorem handleUpdateUser_missing_id_witness:
  "userDetails (open_page [ann, bob] no_id_details) = Some no_id_details
   \<and> details_id no_id_details = []
   \<and> \<not> update_button_disabled (open_page [ann, bob] no_id_details)
   \<and> requests (fst (handleUpdateUser_start ''x7k2p9'' (open_page [ann, bob] no_id_details))) = []
   \<and> users (fst (handleUpdateUser_start ''x7k2p9'' (open_page [ann, bob] no_id_details))) = [ann, bob]
   \<and> toasts (fst (handleUpdateUser_start ''x7k2p9'' (open_page [ann, bob] no_id_details))) =
       [\<lparr>toast_id = ''x7k2p9'', message = ''User id is missing, cannot update.'',
          toast_type = Error\<rparr>]"
proof -
  have a: "userDetails (open_page [ann, bob] no_id_details) = Some no_id_details"
    by (simp add: open_page_def)
  have b: "details_id no_id_details = []"
    by (simp add: details_id_def no_id_details_def or_str_def or_opt_def truthy_def)
  have c: "\<not> update_button_disabled (open_page [ann, bob] no_id_details)"
    by (simp add: update_button_disabled_def open_page_def initial_def)
  from handleUpdateUser_missing_id [OF a b, of "''x7k2p9''"] a b c
  show ?thesis by (simp add: open_page_def initial_def)
qed

lemma users_update_resume_ok:
  "users (handleUpdateUser_resume k (Response True j) rid s) =
     map (\<lambda>u. if has_id (fst k) u then merge_details (snd k) u else u) (users s)"
  by (simp add: handleUpdateUser_resume_def handleUpdateUser_try_def Let_def)

text \<open>
  C2. When an edit completes with a successful response, the list keeps its length and
  order; an item whose identifier differs from the edited one is unchanged; an item
  whose identifier matches keeps its identifiers and dates, and each of its five
  editable fields takes the value of the details when that is truthy and keeps its own
  when it is missing or empty. So details that carry only a name leave the email as it
  was. The product list merges name, link, email and description in the same way; its
  photo takes the preview of the edit form, else the photo of the details, else its own.
\<close>

theorem applyEdit_merges_fields:
  assumes "n < length (users s)" and "m < length prev"
  shows "length (users (handleUpdateUser_resume (i, d) (Response True j) rid s)) = length (users s)
   \<and> (let u = users s ! n; u' = users (handleUpdateUser_resume (i, d) (Response True j) rid s) ! n in
        (\<not> has_id i u \<longrightarrow> u' = u)
      \<and> (has_id i u \<longrightarrow>
           user_id u' = user_id u \<and> user__id u' = user__id u
         \<and> createdAt u' = createdAt u \<and> updatedAt u' = updatedAt u
         \<and> fullName u' = (if truthy (d_fullName d) then the (d_fullName d) else fullName u)
         \<and> email u' = (if truthy (d_email d) then the (d_email d) else email u)
         \<and> mobile u' = (if truthy (d_mobile d) then the (d_mobile d) else mobile u)
         \<and> address u' = (if truthy (d_address d) then the (d_address d) else address u)
         \<and> gender u' = (if truthy (d_gender d) then the (d_gender d) else gender u)))
   \<and> length (handleUpdateProduct_setProducts pi pd preview prev) = length prev
   \<and> (let p = prev ! m; p' = handleUpdateProduct_setProducts pi pd preview prev ! m in
        (\<not> has_product_id pi p \<longrightarrow> p' = p)
      \<and> (has_product_id pi p \<longrightarrow>
           p_id p' = p_id p \<and> p__id p' = p__id p
         \<and> p_createdAt p' = p_createdAt p \<and> p_updatedAt p' = p_updatedAt p
         \<and> p_name p' = (if truthy (pd_name pd) then the (pd_name pd) else p_name p)
         \<and> p_link p' = (if truthy (pd_link pd) then the (pd_link pd) else p_link p)
         \<and> p_email p' = (if truthy (pd_email pd) then the (pd_email pd) else p_email p)
         \<and> p_description p' =
             (if truthy (pd_description pd) then the (pd_description pd) else p_description p)
         \<and> p_photo p' = (if preview \<noteq> [] then preview
                          else if truthy (pd_photo pd) then the (pd_photo pd) else p_photo p)))"
proof -
  have user_part: "length (users (handleUpdateUser_resume (i, d) (Response True j) rid s)) = length (users s)
   \<and> (let u = users s ! n; u' = users (handleUpdateUser_resume (i, d) (Response True j) rid s) ! n in
        (\<not> has_id i u \<longrightarrow> u' = u)
      \<and> (has_id i u \<longrightarrow>
           user_id u' = user_id u \<and> user__id u' = user__id u
         \<and> createdAt u' = createdAt u \<and> updatedAt u' = updatedAt u
         \<and> fullName u' = (if truthy (d_fullName d) then the (d_fullName d) else fullName u)
         \<and> email u' = (if truthy (d_email d) then the (d_email d) else email u)
         \<and> mobile u' = (if truthy (d_mobile d) then the (d_mobile d) else mobile u)
         \<and> address u' = (if truthy (d_address d) then the (d_address d) else address u)
         \<and> gender u' = (if truthy (d_gender d) then the (d_gender d) else gender u)))"
    using assms(1)
    by (auto simp: users_update_resume_ok Let_def merge_details_def or_str_def truthy_def
             split: option.splits)
  have product_part: "length (handleUpdateProduct_setProducts pi pd preview prev) = length prev
   \<and> (let p = prev ! m; p' = handleUpdateProduct_setProducts pi pd preview prev ! m in
        (\<not> has_product_id pi p \<longrightarrow> p' = p)
      \<and> (has_product_id pi p \<longrightarrow>
           p_id p' = p_id p \<and> p__id p' = p__id p
         \<and> p_createdAt p' = p_createdAt p \<and> p_updatedAt p' = p_updatedAt p
         \<and> p_name p' = (if truthy (pd_name pd) then the (pd_name pd) else p_name p)
         \<and> p_link p' = (if truthy (pd_link pd) then the (pd_link pd) else p_link p)
         \<and> p_email p' = (if truthy (pd_email pd) then the (pd_email pd) else p_email p)
         \<and> p_description p' =
             (if truthy (pd_description pd) then the (pd_description pd) else p_description p)
         \<and> p_photo p' = (if preview \<noteq> [] then preview
                          else if truthy (pd_photo pd) then the (pd_photo pd) else p_photo p)))"
    using assms(2)
    by (auto simp: handleUpdateProduct_setProducts_def Let_def merge_product_def or_str_def
                   truthy_def split: option.splits)
  from user_part product_part show ?thesis by blast
qed

text \<open>
  Ann's details with only a new name, on the list of Ann and Bob; the lamp renamed with
  no preview in the form.
\<close>

theorem applyEdit_merges_fields_witness:
  "0 < length (users (open_page [ann, bob] name_only))
   \<and> 0 < length [lamp]
   \<and> has_id ''1'' ann
   \<and> fullName (users (handleUpdateUser_resume (''1'', name_only) ok_empty ''x7k2p9''
                 (open_page [ann, bob] name_only)) ! 0) = ''Ann Smith''
   \<and> email (users (handleUpdateUser_resume (''1'', name_only) ok_empty ''x7k2p9''
                 (open_page [ann, bob] name_only)) ! 0) = ''ann@example.com''
   \<and> mobile (users (handleUpdateUser_resume (''1'', name_only) ok_empty ''x7k2p9''
                 (open_page [ann, bob] name_only)) ! 0) = ''5550100''
   \<and> has_product_id ''7'' lamp
   \<and> p_name (handleUpdateProduct_setProducts ''7'' lamp_renamed [] [lamp] ! 0) = ''Desk lamp''
   \<and> p_email (handleUpdateProduct_setProducts ''7'' lamp_renamed [] [lamp] ! 0) = ''shop@example.com''
   \<and> p_photo (handleUpdateProduct_setProducts ''7'' lamp_renamed [] [lamp] ! 0) = ''uploads/lamp.png''"
proof -
  have a: "0 < length (users (open_page [ann, bob] name_only))"
    by (simp add: open_page_def)
  have b: "0 < length [lamp]"
    by simp
  have c: "has_id ''1'' ann" "has_product_id ''7'' lamp"
    by (simp_all add: has_id_def has_product_id_def ann_def lamp_def or_opt_def truthy_def)
  have u0: "users (open_page [ann, bob] name_only) ! 0 = ann"
    by (simp add: open_page_def)
  from applyEdit_merges_fields [OF a b, where i = "''1''" and d = name_only and j = "Inr \<lparr>body_message = None\<rparr>"
      and rid = "''x7k2p9''" and pi = "''7''" and pd = lamp_renamed and preview = "[]"]
  show ?thesis
    using a c u0
    by (simp add: Let_def ok_empty_def truthy_def name_only_def lamp_renamed_def ann_def lamp_def)
qed

text \<open>
  C10. Whatever the response is (a rejection, an error status, a success), when the
  continuation of \<open>handleUpdateUser\<close> has run the page is idle again and the editing
  context is gone: \<open>isUpdatingUser\<close> is false, the modal is closed and \<open>userDetails\<close>
  is null.
\<close>

theorem handleUpdateUser_always_idle:
  "isUpdatingUser (handleUpdateUser_resume k r rid s) = False
   \<and> isModalOpen (handleUpdateUser_resume k r rid s) = False
   \<and> userDetails (handleUpdateUser_resume k r rid s) = None"
  by (simp add: handleUpdateUser_resume_def Let_def)

text \<open>
  C8. The code at the input of the claim: details with the identifier \<open>"1"\<close> and the
  email \<open>"bad"\<close>. \<open>handleUpdateUser\<close> checks no email: it shows no notification, sends
  the request with that email, and a successful response writes \<open>"bad"\<close> into the list.
\<close>

theorem handleUpdateUser_sends_malformed_email:
  "snd (handleUpdateUser_start ''x7k2p9'' (open_page [ann, bob] bad_email_details)) =
     Some (''1'', bad_email_details)
   \<and> requests (fst (handleUpdateUser_start ''x7k2p9'' (open_page [ann, bob] bad_email_details))) =
       [Post_edit_user ''1'' bad_email_details]
   \<and> toasts (fst (handleUpdateUser_start ''x7k2p9'' (open_page [ann, bob] bad_email_details))) = []
   \<and> map email (users (handleUpdateUser ok_empty ''x7k2p9'' (open_page [ann, bob] bad_email_details))) =
       [''bad'', ''bob@example.com'']"
  by (simp add: handleUpdateUser_def handleUpdateUser_start_def handleUpdateUser_resume_def
        handleUpdateUser_try_def open_page_def initial_def bad_email_details_def details_id_def
        or_str_def or_opt_def truthy_def fetch_call_def ok_empty_def Let_def has_id_def
        merge_details_def ann_def bob_def)

subsection \<open>fetchUsers\<close>

text \<open>
  C9. When the response to \<open>fetchUsers\<close> is a success with a body, the user list becomes
  the \<open>userData\<close> of the body, whatever it held, and no notification is shown; the
  body \<open>{userData: [ann]}\<close> leaves exactly the one item, with the identifier \<open>"1"\<close>.
  When the request is rejected, the status is not a success or the body cannot be read,
  the user list is untouched and exactly one notification, of kind error, is appended.
\<close>

theorem fetchUsers_replaces_or_keeps:
  "users (fetchUsers_resume (Response True (Inr b)) rid s) = userData b
   \<and> toasts (fetchUsers_resume (Response True (Inr b)) rid s) = toasts s
   \<and> users (fetchUsers_resume (Response True (Inr \<lparr>userData = [ann]\<rparr>)) rid s) = [ann]
   \<and> user_id ann = Some ''1''
   \<and> users (fetchUsers_resume (Rejected e) rid s) = users s
   \<and> toasts (fetchUsers_resume (Rejected e) rid s) =
       toasts s @ [\<lparr>toast_id = rid,
                    message = catch_message e ''Failed to load users. Please try again.'',
                    toast_type = Error\<rparr>]
   \<and> users (fetchUsers_resume (Response False j) rid s) = users s
   \<and> toasts (fetchUsers_resume (Response False j) rid s) =
       toasts s @ [\<lparr>toast_id = rid, message = ''Failed to fetch users'', toast_type = Error\<rparr>]
   \<and> users (fetchUsers_resume (Response True (Inl e)) rid s) = users s
   \<and> toasts (fetchUsers_resume (Response True (Inl e)) rid s) =
       toasts s @ [\<lparr>toast_id = rid,
                    message = catch_message e ''Failed to load users. Please try again.'',
                    toast_type = Error\<rparr>]
   \<and> users (fetchUsers_start s) = users s
   \<and> toasts (fetchUsers_start s) = toasts s
   \<and> requests (fetchUsers_start s) = requests s @ [Get_list]"
  by (simp add: fetchUsers_resume_def fetchUsers_try_def fetchUsers_start_def fetch_call_def
        Let_def catch_message_def ann_def)

subsection \<open>handleDeleteUser\<close>

lemma delete_resume_fail:
  "handleDeleteUser_resume i (Response False (Inr b)) rid s =
     (showToast rid (or_str (body_message b) ''Failed to delete user'') Error s)\<lparr>isDeletingUser := False\<rparr>"
  by (simp add: handleDeleteUser_resume_def handleDeleteUser_try_def Let_def catch_message_def)

lemma delete_resume_ok_users:
  "users (handleDeleteUser_resume i (Response True j) rid s) = filter (\<lambda>u. \<not> has_id i u) (users s)"
  by (simp add: handleDeleteUser_resume_def handleDeleteUser_try_def Let_def)

lemma delete_resume_ok_favs:
  "favoritedUsers (handleDeleteUser_resume i (Response True j) rid s) = favoritedUsers s - {i}"
  by (simp add: handleDeleteUser_resume_def handleDeleteUser_try_def Let_def)

lemma handleDeleteUser_open:
  "details_id d \<noteq> [] \<Longrightarrow>
   handleDeleteUser r rid (open_page us d) =
     handleDeleteUser_resume (details_id d) r rid
       (fetch_call (Post_delete_user (details_id d)) ((open_page us d)\<lparr>isDeletingUser := True\<rparr>))"
  by (simp add: handleDeleteUser_def handleDeleteUser_start_def open_page_def initial_def Let_def)

lemma open_page_fields:
  "users (open_page us d) = us" "toasts (open_page us d) = []"
  "favoritedUsers (open_page us d) = {}" "requests (open_page us d) = []"
  "userDetails (open_page us d) = Some d" "isUpdatingUser (open_page us d) = False"
  "isDeletingUser (open_page us d) = False" "timers (open_page us d) = []"
  by (simp_all add: open_page_def initial_def)

lemma example_ids:
  "details_id ann_details = ''1''" "details_id ann_by__id = ''a1''"
  "details_id bad_email_details = ''1''" "details_id name_only = ''1''"
  "has_id i ann = (i = ''1'')" "has_id i ann_twin = (i = ''1'')" "has_id i bob = (i = ''2'')"
  "has_id i ann_both = (i = ''1'')" "\<not> has_id i anon"
  by (auto simp: details_id_def has_id_def or_str_def or_opt_def truthy_def ann_details_def
        ann_by__id_def bad_email_details_def name_only_def ann_def ann_twin_def bob_def ann_both_def
        anon_def)

text \<open>
  The claim C3 as stated fails on two lists. With two rows that resolve to the
  identifier \<open>"1"\<close> (one through \<open>id\<close>, one through \<open>_id\<close>), a successful delete of
  \<open>"1"\<close> removes both. With a row that carries \<open>id = "1"\<close> and \<open>_id = "a1"\<close> and
  details that carry \<open>_id\<close> alone, the delete is sent for \<open>"a1"\<close> and removes no row.
\<close>

theorem handleDeleteUser_not_exactly_one:
  "users (handleDeleteUser ok_empty ''x7k2p9'' (open_page [ann, ann_twin, bob] ann_details)) = [bob]
   \<and> Suc (length (users (handleDeleteUser ok_empty ''x7k2p9'' (open_page [ann, ann_twin, bob] ann_details))))
       \<noteq> length (users (open_page [ann, ann_twin, bob] ann_details))
   \<and> users (handleDeleteUser ok_empty ''x7k2p9'' (open_page [ann_both, bob] ann_by__id)) = [ann_both, bob]
   \<and> Suc (length (users (handleDeleteUser ok_empty ''x7k2p9'' (open_page [ann_both, bob] ann_by__id))))
       \<noteq> length (users (open_page [ann_both, bob] ann_by__id))"
  by (simp add: handleDeleteUser_open example_ids delete_resume_ok_users ok_empty_def
        fetch_call_def open_page_fields)

text \<open>
  C3, amended. When a delete completes with a successful response, every item whose
  identifier matches the id is removed and the others stay, in their order; the id
  leaves the favorites set, which is unchanged when it was not a member. When exactly one
  item of the list matches, exactly that item is removed and the list is one shorter.
\<close>

theorem handleDeleteUser_removes_matching:
  "users (handleDeleteUser_resume i (Response True j) rid s) =
     filter (\<lambda>v. \<not> has_id i v) (users s)
   \<and> favoritedUsers (handleDeleteUser_resume i (Response True j) rid s) = favoritedUsers s - {i}
   \<and> (i \<notin> favoritedUsers s \<longrightarrow>
        favoritedUsers (handleDeleteUser_resume i (Response True j) rid s) = favoritedUsers s)
   \<and> (users s = xs @ u # ys \<and> has_id i u \<and> (\<forall>v \<in> set (xs @ ys). \<not> has_id i v) \<longrightarrow>
        users (handleDeleteUser_resume i (Response True j) rid s) = xs @ ys
      \<and> Suc (length (users (handleDeleteUser_resume i (Response True j) rid s))) =
          length (users s))"
proof -
  have one: "users (handleDeleteUser_resume i (Response True j) rid s) = xs @ ys
      \<and> Suc (length (users (handleDeleteUser_resume i (Response True j) rid s))) = length (users s)"
    if "users s = xs @ u # ys" and "has_id i u" and "\<forall>v \<in> set (xs @ ys). \<not> has_id i v"
  proof -
    have "filter (\<lambda>v. \<not> has_id i v) (xs @ ys) = xs @ ys"
      using that(3) by (simp add: filter_id_conv)
    then show ?thesis
      using that(1,2) by (simp add: delete_resume_ok_users)
  qed
  show ?thesis
    using one by (simp add: delete_resume_ok_users delete_resume_ok_favs)
qed

text \<open>
  Ann, between Bob and the row without identifier, is deleted; she and Bob were
  favorites. And where two rows resolve to her identifier, both go.
\<close>

theorem handleDeleteUser_removes_matching_witness:
  "users ((open_page [bob, ann, anon] ann_details)\<lparr>favoritedUsers := {''1'', ''2''}\<rparr>) = [bob] @ ann # [anon]
   \<and> has_id ''1'' ann
   \<and> \<not> has_id ''1'' bob \<and> \<not> has_id ''1'' anon
   \<and> users (handleDeleteUser_resume ''1'' ok_empty ''x7k2p9''
              ((open_page [bob, ann, anon] ann_details)\<lparr>favoritedUsers := {''1'', ''2''}\<rparr>)) = [bob, anon]
   \<and> favoritedUsers (handleDeleteUser_resume ''1'' ok_empty ''x7k2p9''
              ((open_page [bob, ann, anon] ann_details)\<lparr>favoritedUsers := {''1'', ''2''}\<rparr>)) = {''2''}
   \<and> users (handleDeleteUser_resume ''1'' ok_empty ''x7k2p9''
              (open_page [ann, ann_twin, bob] ann_details)) = [bob]"
proof -
  let ?s = "(open_page [bob, ann, anon] ann_details)\<lparr>favoritedUsers := {''1'', ''2''}\<rparr>"
  have a: "users ?s = [bob] @ ann # [anon]"
    by (simp add: open_page_fields)
  have b: "has_id ''1'' ann"
    by (simp add: example_ids)
  have c: "\<forall>v \<in> set ([bob] @ [anon]). \<not> has_id ''1'' v"
    by (simp add: example_ids)
  have f: "favoritedUsers ?s = {''1'', ''2''}"
    by simp
  have one: "users (handleDeleteUser_resume ''1'' ok_empty ''x7k2p9'' ?s) = [bob, anon]
      \<and> favoritedUsers (handleDeleteUser_resume ''1'' ok_empty ''x7k2p9'' ?s) = {''2''}"
    using handleDeleteUser_removes_matching [of "''1''" "Inr \<lparr>body_message = None\<rparr>" "''x7k2p9''" ?s
        "[bob]" ann "[anon]"] a b c f
    by (auto simp: ok_empty_def)
  have two: "users (handleDeleteUser_resume ''1'' ok_empty ''x7k2p9''
      (open_page [ann, ann_twin, bob] ann_details)) = [bob]"
    using handleDeleteUser_removes_matching [of "''1''" "Inr \<lparr>body_message = None\<rparr>" "''x7k2p9''"
        "open_page [ann, ann_twin, bob] ann_details"]
    by (simp add: ok_empty_def open_page_fields example_ids)
  show ?thesis
    using a b c one two by simp
qed

text \<open>
  The claim C4 as stated fails on the body \<open>{message: ""}\<close>: it carries a message
  field, and the notification reads ``Failed to delete user''.
\<close>

theorem handleDeleteUser_empty_message:
  "map message (toasts (handleDeleteUser empty_message ''x7k2p9'' (open_page [ann, bob] ann_details))) =
     [''Failed to delete user'']"
  by (simp add: handleDeleteUser_open example_ids delete_resume_fail empty_message_def
        or_str_def fetch_call_def open_page_fields)

text \<open>
  C4, amended. When the response to a delete has an error status and its body is a JSON
  object that carries a non-empty \<open>message\<close>, exactly one notification is appended, of kind error, whose text
  is that message; the user list and the favorites set are unchanged, so an item with the
  identifier is still in the list if it was.
\<close>

theorem handleDeleteUser_server_message:
  assumes "body_message b = Some m" and "m \<noteq> []"
  shows "toasts (handleDeleteUser_resume i (Response False (Inr b)) rid s) =
           toasts s @ [\<lparr>toast_id = rid, message = m, toast_type = Error\<rparr>]
       \<and> users (handleDeleteUser_resume i (Response False (Inr b)) rid s) = users s
       \<and> favoritedUsers (handleDeleteUser_resume i (Response False (Inr b)) rid s) = favoritedUsers s
       \<and> ((\<exists>u \<in> set (users s). has_id i u) \<longrightarrow>
            (\<exists>u \<in> set (users (handleDeleteUser_resume i (Response False (Inr b)) rid s)). has_id i u))"
  using assms by (simp add: delete_resume_fail or_str_def)

text \<open>The scenario of the specification: status 500 with the body \<open>{message: "locked"}\<close>.\<close>

theorem handleDeleteUser_server_message_witness:
  "body_message \<lparr>body_message = Some ''locked''\<rparr> = Some ''locked''
   \<and> ''locked'' \<noteq> []
   \<and> toasts (handleDeleteUser locked ''x7k2p9'' (open_page [ann, bob] ann_details)) =
       [\<lparr>toast_id = ''x7k2p9'', message = ''locked'', toast_type = Error\<rparr>]
   \<and> users (handleDeleteUser locked ''x7k2p9'' (open_page [ann, bob] ann_details)) = [ann, bob]
   \<and> has_id ''1'' ann"
proof -
  have a: "body_message \<lparr>body_message = Some ''locked''\<rparr> = Some ''locked''"
    by simp
  have b: "''locked'' \<noteq> []"
    by simp
  from handleDeleteUser_server_message [OF a b, of "''1''" "''x7k2p9''"
      "fetch_call (Post_delete_user ''1'') ((open_page [ann, bob] ann_details)\<lparr>isDeletingUser := True\<rparr>)"]
  show ?thesis
    by (simp add: handleDeleteUser_open example_ids locked_def fetch_call_def open_page_fields)
qed

subsection \<open>handleFavorite\<close>

lemma favs_resume_ok:
  "favoritedUsers (handleFavorite_resume (u, n) (Response True (Inr b)) rid s) =
     (if u \<in> favoritedUsers s then favoritedUsers s - {u} else insert u (favoritedUsers s))"
  by (simp add: handleFavorite_resume_def handleFavorite_try_def Let_def)

lemma slot_resume:
  "isFavoriting (handleFavorite_resume k r rid s) = None"
  by (simp add: handleFavorite_resume_def Let_def)

lemma handleFavorite_free:
  "\<not> truthy (isFavoriting s) \<Longrightarrow>
   handleFavorite u n r rid s =
     handleFavorite_resume (u, n) r rid (fetch_call (Post_favourites u) (s\<lparr>isFavoriting := Some u\<rparr>))"
  by (simp add: handleFavorite_def handleFavorite_start_def)

text \<open>
  C5. A call of \<open>handleFavorite\<close> that is not ignored and completes with a successful
  response adds the id to the favorites set when it is absent and removes it when it is
  present; a second such call on the same id, made after the first has completed, gives
  back the favorites set the first one started from.
\<close>

theorem handleFavorite_involution:
  assumes "\<not> truthy (isFavoriting s)"
  shows "favoritedUsers (handleFavorite u n (Response True (Inr b)) rid s) =
           (if u \<in> favoritedUsers s then favoritedUsers s - {u} else insert u (favoritedUsers s))
       \<and> favoritedUsers (handleFavorite u n' (Response True (Inr b')) rid'
                           (handleFavorite u n (Response True (Inr b)) rid s)) = favoritedUsers s"
proof -
  let ?s1 = "handleFavorite u n (Response True (Inr b)) rid s"
  have one: "favoritedUsers ?s1 =
      (if u \<in> favoritedUsers s then favoritedUsers s - {u} else insert u (favoritedUsers s))"
    using assms by (simp add: handleFavorite_free favs_resume_ok fetch_call_def)
  have free: "\<not> truthy (isFavoriting ?s1)"
    using assms by (simp add: handleFavorite_free slot_resume truthy_def)
  have two: "favoritedUsers (handleFavorite u n' (Response True (Inr b')) rid' ?s1) =
      (if u \<in> favoritedUsers ?s1 then favoritedUsers ?s1 - {u} else insert u (favoritedUsers ?s1))"
    using free by (simp add: handleFavorite_free favs_resume_ok fetch_call_def)
  show ?thesis
    unfolding two using one by auto
qed

text \<open>Ann is made a favorite next to Bob, and then taken back.\<close>

theorem handleFavorite_involution_witness:
  "\<not> truthy (isFavoriting (initial\<lparr>users := [ann, bob], favoritedUsers := {''2''}\<rparr>))
   \<and> favoritedUsers (handleFavorite ''1'' ''Ann Lee'' ok_empty ''x7k2p9''
        (initial\<lparr>users := [ann, bob], favoritedUsers := {''2''}\<rparr>)) = {''1'', ''2''}
   \<and> favoritedUsers (handleFavorite ''1'' ''Ann Lee'' ok_empty ''m2p7qa''
        (handleFavorite ''1'' ''Ann Lee'' ok_empty ''x7k2p9''
           (initial\<lparr>users := [ann, bob], favoritedUsers := {''2''}\<rparr>))) = {''2''}"
proof -
  have a: "\<not> truthy (isFavoriting (initial\<lparr>users := [ann, bob], favoritedUsers := {''2''}\<rparr>))"
    by (simp add: initial_def truthy_def)
  from handleFavorite_involution [OF a, of "''1''" "''Ann Lee''" "\<lparr>body_message = None\<rparr>" "''x7k2p9''"
      "''Ann Lee''" "\<lparr>body_message = None\<rparr>" "''m2p7qa''"]
  show ?thesis
    using a by (simp add: ok_empty_def)
qed

lemma fav_step_single:
  assumes "length ks \<le> 1" and "ks \<noteq> [] \<longrightarrow> truthy (isFavoriting s)"
    and "\<forall>u n. e = Click u n \<longrightarrow> u \<noteq> []"
  shows "length (snd (fav_step e (s, ks))) \<le> 1
       \<and> (snd (fav_step e (s, ks)) \<noteq> [] \<longrightarrow> truthy (isFavoriting (fst (fav_step e (s, ks)))))"
proof (cases e)
  case (Click u n)
  then have "u \<noteq> []" using assms(3) by simp
  then show ?thesis
    using assms(1,2) Click
    by (auto simp: handleFavorite_start_def fetch_call_def truthy_def)
next
  case (Settle n r rid)
  have "n < length ks \<Longrightarrow> take n ks @ drop (Suc n) ks = []"
    using assms(1) by (cases ks) auto
  then show ?thesis
    using assms(1,2) Settle by auto
qed

text \<open>
  As long as every clicked row has a non-empty identifier, at most one favourite request
  is in flight, however clicks and responses interleave.
\<close>

lemma favourite_single_flight:
  assumes "\<forall>e \<in> set evs. \<forall>u n. e = Click u n \<longrightarrow> u \<noteq> []"
    and "length ks \<le> 1" and "ks \<noteq> [] \<longrightarrow> truthy (isFavoriting s)"
  shows "length (snd (fav_run evs (s, ks))) \<le> 1"
  using assms
proof (induction evs arbitrary: s ks)
  case Nil
  then show ?case by (simp add: fav_run_def)
next
  case (Cons e evs)
  have e: "\<forall>u n. e = Click u n \<longrightarrow> u \<noteq> []"
    using Cons.prems(1) by simp
  obtain s1 ks1 where step: "fav_step e (s, ks) = (s1, ks1)"
    by (cases "fav_step e (s, ks)")
  have inv: "length ks1 \<le> 1" "ks1 \<noteq> [] \<longrightarrow> truthy (isFavoriting s1)"
    using fav_step_single [OF Cons.prems(2,3) e] step by simp_all
  have "length (snd (fav_run evs (s1, ks1))) \<le> 1"
    using Cons.IH [OF _ inv] Cons.prems(1) by simp
  then show ?case
    by (simp add: fav_run_def step)
qed

text \<open>
  C6. The code at a failing input: a click on the favourite button of a row without
  identifier, then a click on Bob's row before any response. The first call stores
  \<open>""\<close> in the slot; Bob's button stays enabled, and the guard of the second call
  reads the slot as free: both requests are sent and both calls await their response.
\<close>

theorem handleFavorite_two_in_flight:
  "row_id anon = []
   \<and> isFavoriting (fst (fav_run [Click (row_id anon) (fullName anon)]
            (initial\<lparr>users := [anon, bob]\<rparr>, []))) = Some []
   \<and> \<not> favourite_button_disabled (fst (fav_run [Click (row_id anon) (fullName anon)]
            (initial\<lparr>users := [anon, bob]\<rparr>, []))) bob
   \<and> snd (fav_run [Click (row_id anon) (fullName anon), Click (row_id bob) (fullName bob)]
            (initial\<lparr>users := [anon, bob]\<rparr>, [])) = [([], ''Cy Doe''), (''2'', ''Bob Ray'')]
   \<and> requests (fst (fav_run [Click (row_id anon) (fullName anon), Click (row_id bob) (fullName bob)]
            (initial\<lparr>users := [anon, bob]\<rparr>, []))) = [Post_favourites [], Post_favourites ''2'']"
  by (simp add: fav_run_def handleFavorite_start_def fetch_call_def truthy_def initial_def
        row_id_def anon_def bob_def or_str_def or_opt_def favourite_button_disabled_def)

subsection \<open>The notification queue\<close>

lemma fold_callbacks_toasts:
  "toasts (fold (\<lambda>(at, i). timeout_callback i) due s) =
     filter (\<lambda>t. toast_id t \<notin> snd ` set due) (toasts s)"
proof (induction due arbitrary: s)
  case Nil
  show ?case by simp
next
  case (Cons a due)
  obtain at i where a: "a = (at, i)" by (cases a)
  have "toasts (fold (\<lambda>(at, i). timeout_callback i) (a # due) s) =
      toasts (fold (\<lambda>(at, i). timeout_callback i) due (timeout_callback i s))"
    by (simp add: a)
  also have "\<dots> = filter (\<lambda>t. toast_id t \<notin> snd ` set due) (toasts (timeout_callback i s))"
    by (rule Cons.IH)
  also have "\<dots> = filter (\<lambda>t. toast_id t \<notin> snd ` set (a # due)) (toasts s)"
    by (auto simp: a timeout_callback_def intro: filter_cong)
  finally show ?case .
qed

lemma elapse_toasts:
  "toasts (elapse d s) =
     filter (\<lambda>t. \<forall>(at, j) \<in> set (timers s). at \<le> now s + d \<longrightarrow> j \<noteq> toast_id t) (toasts s)"
proof -
  have "toasts (elapse d s) =
      filter (\<lambda>t. toast_id t \<notin> snd ` set (filter (\<lambda>(at, i). at \<le> now s + d) (timers s))) (toasts s)"
    by (simp add: elapse_def Let_def fold_callbacks_toasts)
  also have "\<dots> = filter (\<lambda>t. \<forall>(at, j) \<in> set (timers s). at \<le> now s + d \<longrightarrow> j \<noteq> toast_id t) (toasts s)"
    by (rule filter_cong) (auto simp: image_iff)
  finally show ?thesis .
qed

lemma elapse_timers:
  "timers (elapse d s) = filter (\<lambda>(at, i). \<not> at \<le> now s + d) (timers s)"
  by (simp add: elapse_def Let_def)

lemma elapse_now: "now (elapse d s) = now s + d"
  by (simp add: elapse_def Let_def)

lemma run_Cons: "run (e # evs) s = run evs (apply_event e s)"
  by (simp add: run_def)

text \<open>
  From a state whose pending timers all lie ahead, a history whose pushes draw
  identifiers that are distinct and new to the state leaves the entries of the state
  that outlive it, followed by the messages the specification calls active.
\<close>

lemma run_toasts:
  assumes "distinct (push_ids evs)"
    and "set (push_ids evs) \<inter> (toast_id ` set (toasts s) \<union> snd ` set (timers s)) = {}"
    and "\<forall>(at, j) \<in> set (timers s). now s < at"
  shows "toasts (run evs s) = filter (\<lambda>t. keeps s evs (toast_id t)) (toasts s) @ active_messages evs"
  using assms
proof (induction evs arbitrary: s)
  case Nil
  have "filter (\<lambda>t. keeps s [] (toast_id t)) (toasts s) = toasts s"
    using Nil.prems(3) by (auto simp: keeps_def filter_id_conv)
  then show ?case by (simp add: run_def)
next
  case (Cons e evs)
  show ?case
  proof (cases e)
    case (Push rid msg ty)
    let ?s = "showToast rid msg ty s"
    have d: "distinct (push_ids evs)" and fresh: "rid \<notin> set (push_ids evs)"
      using Cons.prems(1) Push by simp_all
    have old: "rid \<notin> toast_id ` set (toasts s)" and oldt: "rid \<notin> snd ` set (timers s)"
      using Cons.prems(2) Push by auto
    have disj: "set (push_ids evs) \<inter> (toast_id ` set (toasts ?s) \<union> snd ` set (timers ?s)) = {}"
      using Cons.prems(2) Push fresh by auto
    have fut: "\<forall>(at, j) \<in> set (timers ?s). now ?s < at"
      using Cons.prems(3) by auto
    have k1: "keeps ?s evs (toast_id t) = keeps s (e # evs) (toast_id t)" if "t \<in> set (toasts s)" for t
    proof -
      have "toast_id t \<noteq> rid" using that old by auto
      then show ?thesis by (auto simp: keeps_def Push)
    qed
    have k2: "keeps ?s evs rid = still_active rid evs"
      using oldt by (auto simp: keeps_def still_active_def image_iff)
    have "toasts (run (e # evs) s) = toasts (run evs ?s)"
      by (simp add: run_Cons Push)
    also have "\<dots> = filter (\<lambda>t. keeps ?s evs (toast_id t)) (toasts ?s) @ active_messages evs"
      by (rule Cons.IH [OF d disj fut])
    also have "filter (\<lambda>t. keeps ?s evs (toast_id t)) (toasts ?s) =
        filter (\<lambda>t. keeps s (e # evs) (toast_id t)) (toasts s)
          @ (if still_active rid evs then [\<lparr>toast_id = rid, message = msg, toast_type = ty\<rparr>] else [])"
      using k1 k2 by (auto intro: filter_cong)
    finally show ?thesis by (simp add: Push)
  next
    case (Dismiss i)
    let ?s = "removeToast i s"
    have d: "distinct (push_ids evs)"
      using Cons.prems(1) Dismiss by simp
    have disj: "set (push_ids evs) \<inter> (toast_id ` set (toasts ?s) \<union> snd ` set (timers ?s)) = {}"
      using Cons.prems(2) Dismiss by (auto simp: removeToast_fields)
    have fut: "\<forall>(at, j) \<in> set (timers ?s). now ?s < at"
      using Cons.prems(3) by (auto simp: removeToast_fields)
    have "toasts (run (e # evs) s) = toasts (run evs ?s)"
      by (simp add: run_Cons Dismiss)
    also have "\<dots> = filter (\<lambda>t. keeps ?s evs (toast_id t)) (toasts ?s) @ active_messages evs"
      by (rule Cons.IH [OF d disj fut])
    also have "filter (\<lambda>t. keeps ?s evs (toast_id t)) (toasts ?s) =
        filter (\<lambda>t. keeps s (e # evs) (toast_id t)) (toasts s)"
      by (auto simp: removeToast_fields keeps_def Dismiss intro: filter_cong)
    finally show ?thesis by (simp add: Dismiss)
  next
    case (Elapse n)
    let ?s = "elapse n s"
    have d: "distinct (push_ids evs)"
      using Cons.prems(1) Elapse by simp
    have disj: "set (push_ids evs) \<inter> (toast_id ` set (toasts ?s) \<union> snd ` set (timers ?s)) = {}"
      using Cons.prems(2) Elapse by (auto simp: elapse_toasts elapse_timers)
    have fut: "\<forall>(at, j) \<in> set (timers ?s). now ?s < at"
      by (auto simp: elapse_timers elapse_now)
    have "toasts (run (e # evs) s) = toasts (run evs ?s)"
      by (simp add: run_Cons Elapse)
    also have "\<dots> = filter (\<lambda>t. keeps ?s evs (toast_id t)) (toasts ?s) @ active_messages evs"
      by (rule Cons.IH [OF d disj fut])
    also have "filter (\<lambda>t. keeps ?s evs (toast_id t)) (toasts ?s) =
        filter (\<lambda>t. keeps s (e # evs) (toast_id t)) (toasts s)"
      unfolding elapse_toasts filter_filter
      by (rule filter_cong) (auto simp: keeps_def Elapse elapse_timers elapse_now)
    finally show ?thesis by (simp add: Elapse)
  qed
qed

lemma run_initial:
  assumes "distinct (push_ids evs)"
  shows "toasts (run evs initial) = active_messages evs"
proof -
  have "toasts (run evs initial) =
      filter (\<lambda>t. keeps initial evs (toast_id t)) (toasts initial) @ active_messages evs"
    by (rule run_toasts) (simp_all add: assms initial_def)
  then show ?thesis by (simp add: initial_def)
qed

lemma count_active:
  "length (active_messages evs) + dismissed_or_expired evs = length (push_ids evs)"
  by (induction evs rule: push_ids.induct) simp_all

lemma removeToast_idem: "removeToast i (removeToast i s) = removeToast i s"
  by (simp add: removeToast_def)

lemma removeToast_absent:
  assumes "i \<notin> toast_id ` set (toasts s)"
  shows "removeToast i s = s"
proof -
  have "filter (\<lambda>t. toast_id t \<noteq> i) (toasts s) = toasts s"
    using assms by (auto simp: filter_id_conv)
  then show ?thesis by (simp add: removeToast_def)
qed

lemma expired_gone:
  "4000 \<le> d \<Longrightarrow> rid \<notin> toast_id ` set (toasts (elapse d (showToast rid msg ty s)))"
  by (auto simp: elapse_toasts)

text \<open>
  With pairwise distinct identifiers the queue is what the specification describes. Each
  push appends one entry, which is on screen at once, and arms a timer 4000 ms ahead;
  once 4000 ms have passed no entry with its identifier is left. After every history of
  pushes, dismissals and passing time from the initial page the entries on screen are
  the messages neither dismissed since their push nor 4000 ms old, and their number is
  the number of pushes minus the number of those dismissed or expired. Dismissing twice
  is dismissing once, dismissing an identifier that is not on screen (never pushed,
  dismissed or expired) changes nothing, and a dismissal keeps every entry with another
  identifier, in order.
\<close>

lemma toasts_count_distinct_ids:
  assumes "distinct (push_ids evs)"
  shows "toasts (showToast rid msg ty s) =
           toasts s @ [\<lparr>toast_id = rid, message = msg, toast_type = ty\<rparr>]
       \<and> timers (showToast rid msg ty s) = timers s @ [(now s + 4000, rid)]
       \<and> (4000 \<le> d \<longrightarrow> rid \<notin> toast_id ` set (toasts (elapse d (showToast rid msg ty s))))
       \<and> toasts (run evs initial) = active_messages evs
       \<and> length (toasts (run evs initial)) = length (push_ids evs) - dismissed_or_expired evs
       \<and> removeToast i (removeToast i s) = removeToast i s
       \<and> (i \<notin> toast_id ` set (toasts s) \<longrightarrow> removeToast i s = s)
       \<and> filter (\<lambda>t. toast_id t \<noteq> i) (toasts (removeToast i s)) =
           filter (\<lambda>t. toast_id t \<noteq> i) (toasts s)"
proof -
  have active: "toasts (run evs initial) = active_messages evs"
    using assms by (rule run_initial)
  have "length (active_messages evs) = length (push_ids evs) - dismissed_or_expired evs"
    using count_active [of evs] by simp
  then have count: "length (toasts (run evs initial)) = length (push_ids evs) - dismissed_or_expired evs"
    by (simp add: active)
  have others: "filter (\<lambda>t. toast_id t \<noteq> i) (toasts (removeToast i s)) =
      filter (\<lambda>t. toast_id t \<noteq> i) (toasts s)"
    by (simp add: removeToast_fields)
  show ?thesis
    using active count others expired_gone [of d rid msg ty s] removeToast_absent [of i s]
    by (simp add: removeToast_idem)
qed

text \<open>
  Three pushes with distinct identifiers: the first is dismissed (twice), the second is
  3500 ms old, the third is new. Two entries are on screen.
\<close>

lemma toasts_count_distinct_ids_example:
  "distinct (push_ids sample_history)
   \<and> map toast_id (toasts (run sample_history initial)) = [''m2p7qa'', ''q8w1zt'']
   \<and> length (push_ids sample_history) = 3
   \<and> dismissed_or_expired sample_history = 1"
proof -
  have a: "distinct (push_ids sample_history)"
    by (simp add: sample_history_def)
  have b: "active_messages sample_history =
      [\<lparr>toast_id = ''m2p7qa'', message = ''Failed'', toast_type = Error\<rparr>,
       \<lparr>toast_id = ''q8w1zt'', message = ''Hello'', toast_type = Info\<rparr>]"
    by (simp add: sample_history_def still_active_def)
  have c: "length (push_ids sample_history) = 3" "dismissed_or_expired sample_history = 1"
    by (simp_all add: sample_history_def still_active_def)
  from toasts_count_distinct_ids [OF a] b c a
  show ?thesis by simp
qed

text \<open>
  C7. The code at a failing input: two calls of \<open>showToast\<close> for which
  \<open>Math.random().toString(36).substring(7)\<close> yields the same string, 3000 ms apart, and
  1000 ms more. The second entry is 1000 ms old and was never dismissed, so of two pushes
  one has expired and one message should be on screen; the timer of the first push has
  removed both. In the same way one dismissal of that identifier, right after the two
  pushes, removes both entries.
\<close>

theorem toasts_count_shared_id:
  "toasts (run shared_id_history initial) = []
   \<and> length (push_ids shared_id_history) = 2
   \<and> dismissed_or_expired shared_id_history = 1
   \<and> length (toasts (run shared_id_history initial))
       \<noteq> length (push_ids shared_id_history) - dismissed_or_expired shared_id_history
   \<and> map message (toasts (run (take 3 shared_id_history) initial)) = [''Saved'', ''Deleted'']
   \<and> toasts (removeToast ''x7k2p9'' (run (take 3 shared_id_history) initial)) = []"
  by (simp add: shared_id_history_def run_def initial_def showToast_def elapse_def
        timeout_callback_def still_active_def removeToast_def)

subsection \<open>handleUpdateProduct\<close>

lemma in_butlast_tl:
  "x \<in> set (butlast (tl d)) \<longleftrightarrow> (\<exists>b c. d = b @ x # c \<and> b \<noteq> [] \<and> c \<noteq> [])"
proof
  assume "x \<in> set (butlast (tl d))"
  then obtain p q where pq: "butlast (tl d) = p @ x # q"
    by (meson split_list)
  then have ne: "tl d \<noteq> []" by auto
  then have "d \<noteq> []" by auto
  then have d: "d = hd d # tl d" by simp
  have "tl d = butlast (tl d) @ [last (tl d)]" using ne by simp
  then have "d = (hd d # p) @ x # (q @ [last (tl d)])"
    using d pq by (metis append_Cons append_assoc)
  then show "\<exists>b c. d = b @ x # c \<and> b \<noteq> [] \<and> c \<noteq> []"
    by blast
next
  assume "\<exists>b c. d = b @ x # c \<and> b \<noteq> [] \<and> c \<noteq> []"
  then obtain b c where d: "d = b @ x # c" and "b \<noteq> []" and "c \<noteq> []" by blast
  then show "x \<in> set (butlast (tl d))"
    by (cases b) (auto simp: butlast_append)
qed

lemma split_at_sign:
  assumes "dropWhile (\<lambda>c. c \<noteq> CHR ''@'') s \<noteq> []"
  obtains a d where "s = a @ CHR ''@'' # d" and "a = takeWhile (\<lambda>c. c \<noteq> CHR ''@'') s"
    and "d = tl (dropWhile (\<lambda>c. c \<noteq> CHR ''@'') s)" and "CHR ''@'' \<notin> set a"
proof -
  define a where "a = takeWhile (\<lambda>c. c \<noteq> CHR ''@'') s"
  define r where "r = dropWhile (\<lambda>c. c \<noteq> CHR ''@'') s"
  have "hd r = CHR ''@''"
    using assms hd_dropWhile [of "\<lambda>c. c \<noteq> CHR ''@''" s] by (simp add: r_def)
  moreover have "r \<noteq> []" using assms by (simp add: r_def)
  ultimately have r: "r = CHR ''@'' # tl r"
    by (cases r) simp_all
  have "s = a @ r"
    by (simp add: a_def r_def)
  then have 1: "s = a @ CHR ''@'' # tl r"
    using r by simp
  have 2: "CHR ''@'' \<notin> set a"
    unfolding a_def by (auto dest: set_takeWhileD)
  show thesis
    by (rule that [OF 1 a_def _ 2]) (simp add: r_def)
qed

text \<open>The executable test accepts a string only if it has the shape of the pattern.\<close>

lemma emailRegex_test_parts:
  assumes t: "emailRegex_test s"
  shows "\<exists>a b c. s = a @ ''@'' @ b @ ''.'' @ c \<and> a \<noteq> [] \<and> b \<noteq> [] \<and> c \<noteq> []
        \<and> (\<forall>x \<in> set (a @ b @ c). \<not> js_space x \<and> x \<noteq> CHR ''@'')"
proof -
  from t have r: "dropWhile (\<lambda>c. c \<noteq> CHR ''@'') s \<noteq> []"
    by (simp add: emailRegex_test_def Let_def)
  then obtain a d where s: "s = a @ CHR ''@'' # d" and a_def: "a = takeWhile (\<lambda>c. c \<noteq> CHR ''@'') s"
    and d_def: "d = tl (dropWhile (\<lambda>c. c \<noteq> CHR ''@'') s)" and noat_a: "CHR ''@'' \<notin> set a"
    by (rule split_at_sign)
  from t have a: "a \<noteq> []"
    unfolding emailRegex_test_def Let_def a_def by (elim conjE)
  from t have at: "CHR ''@'' \<notin> set d"
    unfolding emailRegex_test_def Let_def d_def by (elim conjE)
  from t have sp: "\<forall>c \<in> set s. \<not> js_space c"
    unfolding emailRegex_test_def Let_def by (elim conjE)
  from t have dot: "CHR ''.'' \<in> set (butlast (tl d))"
    unfolding emailRegex_test_def Let_def d_def by (elim conjE)
  from dot obtain b c where d: "d = b @ CHR ''.'' # c" and b: "b \<noteq> []" and c: "c \<noteq> []"
    unfolding in_butlast_tl by (elim exE conjE)
  have s': "s = a @ ''@'' @ b @ ''.'' @ c"
    by (subst s, subst d) simp
  have in_s: "x \<in> set s" if "x \<in> set (a @ b @ c)" for x
  proof -
    have "set s = set a \<union> {CHR ''@''} \<union> set b \<union> {CHR ''.''} \<union> set c"
      by (subst s', simp only: set_append set_simps) auto
    then show ?thesis using that by auto
  qed
  have noat: "x \<noteq> CHR ''@''" if "x \<in> set (a @ b @ c)" for x
  proof -
    have "set d = set b \<union> {CHR ''.''} \<union> set c"
      by (subst d, simp only: set_append set_simps) auto
    then have "CHR ''@'' \<notin> set b \<union> set c" using at by auto
    then show ?thesis using that noat_a by auto
  qed
  have all: "\<forall>x \<in> set (a @ b @ c). \<not> js_space x \<and> x \<noteq> CHR ''@''"
    using in_s noat sp by (intro ballI conjI) (rule bspec [OF sp], assumption+)
  show ?thesis
    by (rule exI [of _ a], rule exI [of _ b], rule exI [of _ c]) (intro conjI s' a b c all)
qed

text \<open>And it accepts every string of that shape.\<close>

lemma parts_emailRegex_test:
  assumes "\<exists>a b c. s = a @ ''@'' @ b @ ''.'' @ c \<and> a \<noteq> [] \<and> b \<noteq> [] \<and> c \<noteq> []
        \<and> (\<forall>x \<in> set (a @ b @ c). \<not> js_space x \<and> x \<noteq> CHR ''@'')"
  shows "emailRegex_test s"
proof -
  from assms obtain a b c where s0: "s = a @ ''@'' @ b @ ''.'' @ c"
    and a: "a \<noteq> []" and b: "b \<noteq> []" and c: "c \<noteq> []"
    and ok: "\<forall>x \<in> set (a @ b @ c). \<not> js_space x \<and> x \<noteq> CHR ''@''"
    by (elim exE conjE)
  have s: "s = a @ CHR ''@'' # (b @ CHR ''.'' # c)"
    by (simp add: s0)
  have noat: "\<And>x. x \<in> set a \<Longrightarrow> x \<noteq> CHR ''@''"
    using ok by simp
  have "takeWhile (\<lambda>c. c \<noteq> CHR ''@'') s =
      a @ takeWhile (\<lambda>c. c \<noteq> CHR ''@'') (CHR ''@'' # (b @ CHR ''.'' # c))"
    unfolding s by (rule takeWhile_append2) (simp add: noat)
  then have tw: "takeWhile (\<lambda>c. c \<noteq> CHR ''@'') s = a"
    by simp
  have "dropWhile (\<lambda>c. c \<noteq> CHR ''@'') s =
      dropWhile (\<lambda>c. c \<noteq> CHR ''@'') (CHR ''@'' # (b @ CHR ''.'' # c))"
    unfolding s by (rule dropWhile_append2) (simp add: noat)
  then have dw: "dropWhile (\<lambda>c. c \<noteq> CHR ''@'') s = CHR ''@'' # (b @ CHR ''.'' # c)"
    by simp
  have dot: "CHR ''.'' \<in> set (butlast (tl (b @ CHR ''.'' # c)))"
    unfolding in_butlast_tl using b c by (intro exI [of _ b] exI [of _ c]) simp
  have marks: "\<not> js_space (CHR ''@'')" "\<not> js_space (CHR ''.'')"
    by (simp_all add: js_space_def)
  have sp: "\<forall>x \<in> set s. \<not> js_space x"
    unfolding s using ok marks by auto
  have at: "CHR ''@'' \<notin> set (b @ CHR ''.'' # c)"
    using ok by auto
  show "emailRegex_test s"
    unfolding emailRegex_test_def Let_def tw dw using a dot sp at by simp
qed


text \<open>
  The product edit sends a request only for details whose email passes the test; the
  details of the lamp with the email \<open>"bad"\<close> are refused before anything is sent,
  whatever the link parses to.
\<close>

lemma handleUpdateProduct_sends_valid_email:
  assumes "handleUpdateProduct_preflight url_parses busy (Some d) = Sent i"
  shows "\<exists>e. pd_email d = Some e \<and> emailRegex_test e"
proof -
  from assms have "truthy (pd_email d)" and "emailRegex_test (the (pd_email d))"
    by (auto simp: handleUpdateProduct_preflight_def Let_def split: if_splits)
  then show ?thesis
    by (cases "pd_email d") (simp_all add: truthy_def)
qed

lemma handleUpdateProduct_refuses_bad_email:
  "handleUpdateProduct_preflight url_parses False (Some lamp_bad_email) =
     Refused ''Please enter a valid email address.''"
  by (simp add: handleUpdateProduct_preflight_def lamp_bad_email_def Let_def or_str_def or_opt_def
        truthy_def emailRegex_test_def)

end
